theory Spec2Isabelle
  imports Main "HOL-Library.Word" "HOL-Library.AList"
begin

unbundle bit_operations_syntax

section \<open>The metadata manager (metadata/metadata_manager.go)\<close>

subsection \<open>Bytes, errors and the storage beneath the manager\<close>

type_synonym byte = "8 word"
type_synonym bytes = "byte list"

text \<open>Go's \<^verbatim>\<open>[]byte("...")\<close>: the bytes of a string.\<close>

definition bytes_of :: "string \<Rightarrow> bytes" where
  "bytes_of s = map (\<lambda>c. of_nat (of_char c)) s"

text \<open>
  Every error value the manager can hand back. A Go run-time panic is a value too, so that
  a path that panics is a branch of the model and not an unspecified result.
\<close>

datatype error =
    ErrBlockNotFound                    \<comment> \<open>\<^verbatim>\<open>storage.ErrBlockNotFound\<close>\<close>
  | ErrNotFound                         \<comment> \<open>\<^verbatim>\<open>metadata.ErrNotFound\<close>, "metadata not found"\<close>
  | InvalidItemName string              \<comment> \<open>"invalid metadata item name: '%v'"\<close>
  | UnexpectedReadError string error    \<comment> \<open>"unexpected error reading %v: %v"\<close>
  | StorageFailure string               \<comment> \<open>any other error of the storage backend\<close>
  | RandFailure string                  \<comment> \<open>an error of \<^verbatim>\<open>io.ReadFull(rand.Reader, _)\<close>\<close>
  | AuthenticationFailed                \<comment> \<open>\<^verbatim>\<open>cipher.AEAD.Open\<close>: message authentication failed\<close>
  | JSONError string                    \<comment> \<open>an error of \<^verbatim>\<open>json.Marshal\<close> or \<^verbatim>\<open>json.Unmarshal\<close>\<close>
  | CannotCreateCipher string           \<comment> \<open>"cannot create cipher: %v"\<close>
  | UnknownEncryptionAlgorithm string   \<comment> \<open>"unknown encryption algorithm: '%v'"\<close>
  | UnableToInitializeCrypto error      \<comment> \<open>"unable to initialize crypto: %v"\<close>
  | Malformed string                    \<comment> \<open>the object layer's malformed-data error\<close>
  | InvalidArgument string              \<comment> \<open>the object layer: unknown format string, write after result\<close>
  | ConfigurationError string           \<comment> \<open>the object layer: incompatible options\<close>
  | PanicSliceBounds nat nat            \<comment> \<open>run-time panic: slice bounds out of range\<close>

text \<open>
  Modelled from the spec: the storage backend and the \<^verbatim>\<open>metadataCache\<close> over it are not among
  the sources. The spec gives the backend as a flat mapping from block-ID string to opaque
  byte payload, with \<^verbatim>\<open>GetBlock(id)\<close> returning the data or \<^verbatim>\<open>ErrBlockNotFound\<close>, and names
  backend errors other than NotFound as transient I/O errors. \<open>blocks\<close> is the mapping;
  \<open>faults\<close> lists the block IDs whose read fails, with the error the backend reports.
\<close>

record storage =
  blocks :: "string \<rightharpoonup> bytes"
  faults :: "string \<rightharpoonup> error"

definition GetBlock :: "storage \<Rightarrow> string \<Rightarrow> error + bytes" where
  "GetBlock st blockID =
     (case faults st blockID of
        Some e \<Rightarrow> Inl e
      | None \<Rightarrow> (case blocks st blockID of
                  None \<Rightarrow> Inl ErrBlockNotFound
                | Some b \<Rightarrow> Inr b))"

definition PutBlock :: "storage \<Rightarrow> string \<Rightarrow> bytes \<Rightarrow> storage" where
  "PutBlock st blockID content = st\<lparr>blocks := (blocks st)(blockID \<mapsto> content)\<rparr>"

definition DeleteBlock :: "storage \<Rightarrow> string \<Rightarrow> storage" where
  "DeleteBlock st blockID = st\<lparr>blocks := (blocks st)(blockID := None)\<rparr>"

text \<open>
  Modelled from the spec: \<^verbatim>\<open>PutBlock\<close> and \<^verbatim>\<open>DeleteBlock\<close> of the \<^verbatim>\<open>metadataCache\<close> are not
  among the sources. They write through to the backend and return its error. Whether the
  backend fails a write or a delete is outside the manager: \<open>putFault\<close> and \<open>deleteFault\<close> give
  the error, if any, with which the backend answers the write or the delete of a block ID. A
  failed operation leaves the mapping as it was; a successful one is \<open>PutBlock\<close> or
  \<open>DeleteBlock\<close> above.
\<close>

record backend_faults =
  putFault :: "string \<Rightarrow> error option"
  deleteFault :: "string \<Rightarrow> error option"

definition cache_PutBlock ::
    "backend_faults \<Rightarrow> storage \<Rightarrow> string \<Rightarrow> bytes \<Rightarrow> error option \<times> storage" where
  "cache_PutBlock bf st blockID content =
     (case putFault bf blockID of
        Some err \<Rightarrow> (Some err, st)
      | None \<Rightarrow> (None, PutBlock st blockID content))"

definition cache_DeleteBlock ::
    "backend_faults \<Rightarrow> storage \<Rightarrow> string \<Rightarrow> error option \<times> storage" where
  "cache_DeleteBlock bf st blockID =
     (case deleteFault bf blockID of
        Some err \<Rightarrow> (Some err, st)
      | None \<Rightarrow> (None, DeleteBlock st blockID))"

subsection \<open>The AEAD, the key manager and the random source\<close>

text \<open>
  \<^verbatim>\<open>cipher.AEAD\<close> is an interface of Go's standard library: the manager sees its nonce size,
  its overhead, \<^verbatim>\<open>Seal(dst, nonce, plaintext, additionalData)\<close> and
  \<^verbatim>\<open>Open(dst, nonce, ciphertext, additionalData)\<close>. \<open>Seal\<close> gives the bytes appended to
  \<^verbatim>\<open>dst\<close>; \<open>Open\<close> gives \<open>None\<close> where Go returns an authentication error.
\<close>

record AEAD =
  NonceSize :: nat
  Overhead :: nat
  Seal :: "bytes \<Rightarrow> bytes \<Rightarrow> bytes \<Rightarrow> bytes"
  Open :: "bytes \<Rightarrow> bytes \<Rightarrow> bytes \<Rightarrow> bytes option"

text \<open>
  The library the manager is built on, taken as a parameter: AES-GCM under a key
  (\<^verbatim>\<open>aes.NewCipher\<close> then \<^verbatim>\<open>cipher.NewGCM\<close>) and the key manager's \<^verbatim>\<open>DeriveKey(purpose, length)\<close>.
\<close>

record library =
  gcm_Seal :: "bytes \<Rightarrow> bytes \<Rightarrow> bytes \<Rightarrow> bytes \<Rightarrow> bytes"
  gcm_Open :: "bytes \<Rightarrow> bytes \<Rightarrow> bytes \<Rightarrow> bytes \<Rightarrow> bytes option"
  DeriveKey :: "bytes \<Rightarrow> nat \<Rightarrow> bytes"

definition gcmStandardNonceSize :: nat where
  "gcmStandardNonceSize = 12"

definition gcmTagSize :: nat where
  "gcmTagSize = 16"

text \<open>\<^verbatim>\<open>aes.NewCipher\<close> accepts keys of 16, 24 and 32 bytes only.\<close>

definition NewGCM :: "library \<Rightarrow> bytes \<Rightarrow> error + AEAD" where
  "NewGCM lib key =
     (if length key = 16 \<or> length key = 24 \<or> length key = 32
      then Inr \<lparr>NonceSize = gcmStandardNonceSize, Overhead = gcmTagSize,
                Seal = gcm_Seal lib key, Open = gcm_Open lib key\<rparr>
      else Inl (CannotCreateCipher ''crypto/aes: invalid key size''))"

text \<open>
  \<^verbatim>\<open>io.ReadFull(rand.Reader, buf)\<close>: the random source is a function from the number of bytes
  asked for to an error or the bytes read; \<^verbatim>\<open>ReadFull\<close> fails when fewer bytes came than
  asked for.
\<close>

type_synonym rand_Reader = "nat \<Rightarrow> error + bytes"

definition ReadFull :: "rand_Reader \<Rightarrow> nat \<Rightarrow> error + bytes" where
  "ReadFull rd n =
     (case rd n of
        Inl e \<Rightarrow> Inl e
      | Inr bs \<Rightarrow> if length bs < n then Inl (RandFailure ''unexpected EOF'') else Inr (take n bs))"

subsection \<open>The manager\<close>

record Format =
  Version :: string
  EncryptionAlgorithm :: string

record Manager =
  Format :: Format
  cache :: storage
  aead :: "AEAD option"
  authData :: bytes

definition purposeAESKey :: bytes where
  "purposeAESKey = bytes_of ''AES''"

definition purposeAuthData :: bytes where
  "purposeAuthData = bytes_of ''CHECKSUM''"

definition isReservedName :: "string \<Rightarrow> bool" where
  "isReservedName itemID = (if itemID = ''format'' \<or> itemID = ''repo'' then True else False)"

definition checkReservedName :: "string \<Rightarrow> error option" where
  "checkReservedName itemID =
     (if isReservedName itemID then Some (InvalidItemName itemID) else None)"

text \<open>
  \<^verbatim>\<open>writeEncryptedBlock\<close>. With an AEAD, the buffer \<^verbatim>\<open>cipherText\<close> has room for nonce, content
  and overhead; the nonce is its first \<open>nonceLength\<close> bytes and \<^verbatim>\<open>Seal\<close> appends to the empty
  slice right after it (the contract of \<^verbatim>\<open>cipher.AEAD\<close>: the result is appended to \<^verbatim>\<open>dst\<close>), so
  what it appends lands in the same buffer while it fits. The last line reslices \<^verbatim>\<open>nonce\<close> up
  to \<open>nonceLength + len(b)\<close>, which panics beyond the capacity of the buffer. The function
  returns what \<^verbatim>\<open>mm.cache.PutBlock\<close> returns. The result is the error (or none) and the manager
  after the call.
\<close>

definition writeEncryptedBlock ::
    "rand_Reader \<Rightarrow> backend_faults \<Rightarrow> Manager \<Rightarrow> string \<Rightarrow> bytes
       \<Rightarrow> error option \<times> Manager" where
  "writeEncryptedBlock rd bf mm itemID content =
     (case aead mm of
        Some a \<Rightarrow>
          (let nonceLength = NonceSize a;
               noncePlusContentLength = nonceLength + length content;
               capacity = noncePlusContentLength + Overhead a
           in case ReadFull rd nonceLength of
                Inl err \<Rightarrow> (Some err, mm)
              | Inr nonce \<Rightarrow>
                  (let b = Seal a nonce content (authData mm)
                   in if nonceLength + length b \<le> capacity
                      then (case cache_PutBlock bf (cache mm) itemID (nonce @ b) of
                              (err, st) \<Rightarrow> (err, mm\<lparr>cache := st\<rparr>))
                      else (Some (PanicSliceBounds (nonceLength + length b) capacity), mm)))
      | None \<Rightarrow>
          (case cache_PutBlock bf (cache mm) itemID content of
             (err, st) \<Rightarrow> (err, mm\<lparr>cache := st\<rparr>)))"

definition Put ::
    "rand_Reader \<Rightarrow> backend_faults \<Rightarrow> Manager \<Rightarrow> string \<Rightarrow> bytes
       \<Rightarrow> error option \<times> Manager" where
  "Put rd bf mm itemID content =
     (case checkReservedName itemID of
        Some err \<Rightarrow> (Some err, mm)
      | None \<Rightarrow> writeEncryptedBlock rd bf mm itemID content)"

text \<open>
  \<^verbatim>\<open>decryptBlock\<close>. \<^verbatim>\<open>content[0:NonceSize]\<close> and \<^verbatim>\<open>content[NonceSize:]\<close> are slice expressions:
  the first panics when the nonce size exceeds the capacity of \<^verbatim>\<open>content\<close>, the second when it
  exceeds its length, so a content shorter than the nonce size panics at one of the two.
\<close>

definition decryptBlock :: "Manager \<Rightarrow> bytes \<Rightarrow> error + bytes" where
  "decryptBlock mm content =
     (case aead mm of
        Some a \<Rightarrow>
          if NonceSize a \<le> length content
          then (let nonce = take (NonceSize a) content;
                    payload = drop (NonceSize a) content
                in case Open a nonce payload (authData mm) of
                     None \<Rightarrow> Inl AuthenticationFailed
                   | Some plain \<Rightarrow> Inr plain)
          else Inl (PanicSliceBounds (NonceSize a) (length content))
      | None \<Rightarrow> Inr content)"

definition readEncryptedBlock :: "Manager \<Rightarrow> string \<Rightarrow> error + bytes" where
  "readEncryptedBlock mm itemID =
     (case GetBlock (cache mm) itemID of
        Inl err \<Rightarrow>
          if err = ErrBlockNotFound then Inl ErrNotFound
          else Inl (UnexpectedReadError itemID err)
      | Inr content \<Rightarrow> decryptBlock mm content)"

definition GetMetadata :: "Manager \<Rightarrow> string \<Rightarrow> error + bytes" where
  "GetMetadata mm itemID =
     (case checkReservedName itemID of
        Some err \<Rightarrow> Inl err
      | None \<Rightarrow> readEncryptedBlock mm itemID)"

text \<open>
  \<^verbatim>\<open>MultiGet\<close>. Five workers take item IDs from a channel, call \<^verbatim>\<open>GetMetadata\<close> and send each
  result on \<^verbatim>\<open>ch\<close>; the caller receives exactly \<open>len(itemIDs)\<close> results. The order in which
  results arrive is the scheduler's: \<open>sched\<close> gives the arrival order of the item IDs (a
  reordering of the input). The receiving loop is \<open>collect\<close>: an error overwrites
  \<^verbatim>\<open>resultErr\<close>, anything else is stored in \<^verbatim>\<open>resultMap\<close>. A worker whose \<^verbatim>\<open>GetMetadata\<close>
  panics sends no result: the panic of a goroutine ends the program, so the first panic to
  happen is how the call ends, and nothing received later replaces it.
\<close>

fun isPanic :: "error \<Rightarrow> bool" where
  "isPanic (PanicSliceBounds hi bound) = True"
| "isPanic _ = False"

fun collect ::
    "(string \<times> (error + bytes)) list \<Rightarrow> error option \<Rightarrow> (string \<rightharpoonup> bytes)
       \<Rightarrow> error option \<times> (string \<rightharpoonup> bytes)" where
  "collect [] resultErr resultMap = (resultErr, resultMap)"
| "collect ((itemID, Inl err) # rs) resultErr resultMap =
     (if isPanic err then (Some err, resultMap) else collect rs (Some err) resultMap)"
| "collect ((itemID, Inr contents) # rs) resultErr resultMap =
     collect rs resultErr (resultMap(itemID \<mapsto> contents))"

definition MultiGet ::
    "(string list \<Rightarrow> string list) \<Rightarrow> Manager \<Rightarrow> string list \<Rightarrow> error + (string \<rightharpoonup> bytes)" where
  "MultiGet sched mm itemIDs =
     (case collect (map (\<lambda>itemID. (itemID, GetMetadata mm itemID)) (sched itemIDs))
             None Map.empty of
        (Some resultErr, resultMap) \<Rightarrow> Inl resultErr
      | (None, resultMap) \<Rightarrow> Inr resultMap)"

text \<open>
  \<^verbatim>\<open>GetJSON\<close> and \<^verbatim>\<open>PutJSON\<close>; \<^verbatim>\<open>json.Unmarshal\<close> and \<^verbatim>\<open>json.Marshal\<close> are parameters.
\<close>

definition GetJSON :: "(bytes \<Rightarrow> error + 'a) \<Rightarrow> Manager \<Rightarrow> string \<Rightarrow> error + 'a" where
  "GetJSON unmarshal mm itemID =
     (case readEncryptedBlock mm itemID of
        Inl err \<Rightarrow> Inl err
      | Inr j \<Rightarrow> unmarshal j)"

definition PutJSON ::
    "('a \<Rightarrow> error + bytes) \<Rightarrow> rand_Reader \<Rightarrow> backend_faults \<Rightarrow> Manager \<Rightarrow> string \<Rightarrow> 'a
       \<Rightarrow> error option \<times> Manager" where
  "PutJSON marshal rd bf mm itemID content =
     (case marshal content of
        Inl err \<Rightarrow> (Some err, mm)
      | Inr j \<Rightarrow> writeEncryptedBlock rd bf mm itemID j)"

text \<open>\<^verbatim>\<open>Remove\<close> returns what \<^verbatim>\<open>mm.cache.DeleteBlock\<close> returns.\<close>

definition Remove :: "backend_faults \<Rightarrow> Manager \<Rightarrow> string \<Rightarrow> error option \<times> Manager" where
  "Remove bf mm itemID =
     (case checkReservedName itemID of
        Some err \<Rightarrow> (Some err, mm)
      | None \<Rightarrow>
          (case cache_DeleteBlock bf (cache mm) itemID of
             (err, st) \<Rightarrow> (err, mm\<lparr>cache := st\<rparr>)))"

text \<open>
  \<^verbatim>\<open>RemoveMany\<close>. Thirty workers take IDs from a channel and call \<^verbatim>\<open>Remove\<close>; each error goes
  to the buffered channel \<^verbatim>\<open>errch\<close>, and the result is the first error in it, or none. \<open>sched\<close>
  gives the order in which the workers' calls take effect.
\<close>

fun removeAll :: "backend_faults \<Rightarrow> Manager \<Rightarrow> string list \<Rightarrow> error list \<times> Manager" where
  "removeAll bf mm [] = ([], mm)"
| "removeAll bf mm (itemID # ids) =
     (case Remove bf mm itemID of
        (Some err, mm') \<Rightarrow>
          (case removeAll bf mm' ids of (errch, mm'') \<Rightarrow> (err # errch, mm''))
      | (None, mm') \<Rightarrow> removeAll bf mm' ids)"

definition RemoveMany ::
    "(string list \<Rightarrow> string list) \<Rightarrow> backend_faults \<Rightarrow> Manager \<Rightarrow> string list
       \<Rightarrow> error option \<times> Manager" where
  "RemoveMany sched bf mm itemIDs =
     (case removeAll bf mm (sched itemIDs) of
        ([], mm') \<Rightarrow> (None, mm')
      | (err # errch, mm') \<Rightarrow> (Some err, mm'))"

text \<open>
  \<^verbatim>\<open>initCrypto\<close> and \<^verbatim>\<open>NewManager\<close>. The two keys are derived for the purposes \<open>AES\<close> and
  \<open>CHECKSUM\<close>, 32 bytes each. \<^verbatim>\<open>newMetadataCache\<close> is taken to succeed: the cache is the
  storage itself.
\<close>

definition initCrypto :: "library \<Rightarrow> Manager \<Rightarrow> Format \<Rightarrow> error + Manager" where
  "initCrypto lib mm f =
     (if EncryptionAlgorithm f = ''NONE'' then Inr mm
      else if EncryptionAlgorithm f = ''AES256_GCM'' then
        (let aesKey = DeriveKey lib purposeAESKey 32;
             mm1 = mm\<lparr>authData := DeriveKey lib purposeAuthData 32\<rparr>
         in case NewGCM lib aesKey of
              Inl err \<Rightarrow> Inl err
            | Inr a \<Rightarrow> Inr (mm1\<lparr>aead := Some a\<rparr>))
      else Inl (UnknownEncryptionAlgorithm (EncryptionAlgorithm f)))"

definition NewManager :: "library \<Rightarrow> storage \<Rightarrow> Format \<Rightarrow> error + Manager" where
  "NewManager lib st f =
     (case initCrypto lib \<lparr>Format = f, cache = st, aead = None, authData = []\<rparr> f of
        Inl err \<Rightarrow> Inl (UnableToInitializeCrypto err)
      | Inr mm \<Rightarrow> Inr mm)"

subsection \<open>Example managers\<close>

text \<open>
  Concrete values at which the theorems below are evaluated: an empty storage, a manager
  without encryption, and a manager built on a stand-in library whose sealing appends a
  16-byte tag of zeros (it meets the length and the opening contract of an AEAD, which is
  all the manager relies on); a backend that fails no write or delete and one that fails
  them all; a random source that delivers and one that fails.
\<close>

definition emptyStorage :: storage where
  "emptyStorage = \<lparr>blocks = Map.empty, faults = Map.empty\<rparr>"

definition plainFormat :: Format where
  "plainFormat = \<lparr>Version = ''1'', EncryptionAlgorithm = ''NONE''\<rparr>"

definition gcmFormat :: Format where
  "gcmFormat = \<lparr>Version = ''1'', EncryptionAlgorithm = ''AES256_GCM''\<rparr>"

definition plainManager :: Manager where
  "plainManager = \<lparr>Format = plainFormat, cache = emptyStorage, aead = None, authData = []\<rparr>"

definition toyLibrary :: library where
  "toyLibrary =
     \<lparr>gcm_Seal = (\<lambda>key nonce p ad. p @ replicate 16 0),
      gcm_Open = (\<lambda>key nonce c ad.
                    if 16 \<le> length c then Some (take (length c - 16) c) else None),
      DeriveKey = (\<lambda>purpose n. replicate n 0)\<rparr>"

definition gcmManager :: "storage \<Rightarrow> Manager" where
  "gcmManager st =
     \<lparr>Format = gcmFormat, cache = st,
      aead = Some \<lparr>NonceSize = 12, Overhead = 16,
                    Seal = gcm_Seal toyLibrary (DeriveKey toyLibrary purposeAESKey 32),
                    Open = gcm_Open toyLibrary (DeriveKey toyLibrary purposeAESKey 32)\<rparr>,
      authData = DeriveKey toyLibrary purposeAuthData 32\<rparr>"

definition noFaults :: backend_faults where
  "noFaults = \<lparr>putFault = (\<lambda>blockID. None), deleteFault = (\<lambda>blockID. None)\<rparr>"

definition faultyBackend :: backend_faults where
  "faultyBackend =
     \<lparr>putFault = (\<lambda>blockID. Some (StorageFailure ''disk full'')),
      deleteFault = (\<lambda>blockID. Some (StorageFailure ''read-only''))\<rparr>"

definition noEntropy :: rand_Reader where
  "noEntropy n = Inl (RandFailure ''no entropy'')"

definition sevens :: rand_Reader where
  "sevens n = Inr (replicate n 7)"

definition inOrder :: "string list \<Rightarrow> string list" where
  "inOrder itemIDs = itemIDs"


section \<open>The object layer and the block manager\<close>

text \<open>
  Modelled from the spec: the object writer, the object reader, the splitter and the block
  manager are not among the sources; only the repository's test file is. The definitions of
  this section follow the spec's sections 3 (data model), 4.1 (splitter), 4.2 (object writer),
  4.3 (object reader) and 4.4 (block manager). What the spec leaves to a library (JSON,
  HMAC-SHA256) is a parameter; MD5 is written out, since the spec's scenarios name MD5 digests.
\<close>

subsection \<open>MD5 (RFC 1321) and hexadecimal text\<close>

type_synonym u32 = "32 word"

definition md5_K :: "u32 list" where
  "md5_K =
    [0xd76aa478, 0xe8c7b756, 0x242070db, 0xc1bdceee,
     0xf57c0faf, 0x4787c62a, 0xa8304613, 0xfd469501,
     0x698098d8, 0x8b44f7af, 0xffff5bb1, 0x895cd7be,
     0x6b901122, 0xfd987193, 0xa679438e, 0x49b40821,
     0xf61e2562, 0xc040b340, 0x265e5a51, 0xe9b6c7aa,
     0xd62f105d, 0x02441453, 0xd8a1e681, 0xe7d3fbc8,
     0x21e1cde6, 0xc33707d6, 0xf4d50d87, 0x455a14ed,
     0xa9e3e905, 0xfcefa3f8, 0x676f02d9, 0x8d2a4c8a,
     0xfffa3942, 0x8771f681, 0x6d9d6122, 0xfde5380c,
     0xa4beea44, 0x4bdecfa9, 0xf6bb4b60, 0xbebfbc70,
     0x289b7ec6, 0xeaa127fa, 0xd4ef3085, 0x04881d05,
     0xd9d4d039, 0xe6db99e5, 0x1fa27cf8, 0xc4ac5665,
     0xf4292244, 0x432aff97, 0xab9423a7, 0xfc93a039,
     0x655b59c3, 0x8f0ccc92, 0xffeff47d, 0x85845dd1,
     0x6fa87e4f, 0xfe2ce6e0, 0xa3014314, 0x4e0811a1,
     0xf7537e82, 0xbd3af235, 0x2ad7d2bb, 0xeb86d391]"

definition md5_s :: "nat list" where
  "md5_s =
    [7, 12, 17, 22, 7, 12, 17, 22, 7, 12, 17, 22, 7, 12, 17, 22,
     5, 9, 14, 20, 5, 9, 14, 20, 5, 9, 14, 20, 5, 9, 14, 20,
     4, 11, 16, 23, 4, 11, 16, 23, 4, 11, 16, 23, 4, 11, 16, 23,
     6, 10, 15, 21, 6, 10, 15, 21, 6, 10, 15, 21, 6, 10, 15, 21]"

definition rotl32 :: "u32 \<Rightarrow> nat \<Rightarrow> u32" where
  "rotl32 x n = push_bit n x OR drop_bit (32 - n) x"

fun le_words :: "bytes \<Rightarrow> u32 list" where
  "le_words (b0 # b1 # b2 # b3 # rest) =
     (ucast b0 OR push_bit 8 (ucast b1) OR push_bit 16 (ucast b2) OR push_bit 24 (ucast b3))
       # le_words rest"
| "le_words _ = []"

definition le_bytes32 :: "u32 \<Rightarrow> bytes" where
  "le_bytes32 w = [ucast w, ucast (drop_bit 8 w), ucast (drop_bit 16 w), ucast (drop_bit 24 w)]"

definition le_bytes64 :: "64 word \<Rightarrow> bytes" where
  "le_bytes64 w = map (\<lambda>i. ucast (drop_bit (8 * i) w)) [0..<8]"

text \<open>
  Padding: the byte 0x80, zeros up to 56 modulo 64, then the length in bits as 64 bits,
  least significant byte first.
\<close>

definition md5_pad :: "bytes \<Rightarrow> bytes" where
  "md5_pad m =
     m @ [0x80] @ replicate ((119 - length m mod 64) mod 64) 0
       @ le_bytes64 (8 * of_nat (length m))"

type_synonym md5_state = "u32 \<times> u32 \<times> u32 \<times> u32"

fun md5_step :: "u32 list \<Rightarrow> nat \<Rightarrow> md5_state \<Rightarrow> md5_state" where
  "md5_step M i (a, b, c, d) =
     (let (f, g) =
            (if i < 16 then ((b AND c) OR (NOT b AND d), i)
             else if i < 32 then ((d AND b) OR (NOT d AND c), (5 * i + 1) mod 16)
             else if i < 48 then (b XOR c XOR d, (3 * i + 5) mod 16)
             else (c XOR (b OR NOT d), (7 * i) mod 16));
          f' = f + a + md5_K ! i + M ! g
      in (d, b + rotl32 f' (md5_s ! i), b, c))"

fun md5_block :: "md5_state \<Rightarrow> bytes \<Rightarrow> md5_state" where
  "md5_block (a0, b0, c0, d0) blk =
     (case fold (md5_step (le_words blk)) [0..<64] (a0, b0, c0, d0) of
        (a, b, c, d) \<Rightarrow> (a0 + a, b0 + b, c0 + c, d0 + d))"

fun md5_blocks :: "nat \<Rightarrow> md5_state \<Rightarrow> bytes \<Rightarrow> md5_state" where
  "md5_blocks 0 st m = st"
| "md5_blocks (Suc n) st m = md5_blocks n (md5_block st (take 64 m)) (drop 64 m)"

definition md5_Sum :: "bytes \<Rightarrow> bytes" where
  "md5_Sum m =
     (let p = md5_pad m
      in case md5_blocks (length p div 64)
                (0x67452301, 0xefcdab89, 0x98badcfe, 0x10325476) p of
           (a, b, c, d) \<Rightarrow> le_bytes32 a @ le_bytes32 b @ le_bytes32 c @ le_bytes32 d)"

definition hexdigit :: "nat \<Rightarrow> char" where
  "hexdigit n = ''0123456789abcdef'' ! n"

definition hex_EncodeToString :: "bytes \<Rightarrow> string" where
  "hex_EncodeToString bs =
     concat (map (\<lambda>b. [hexdigit (unat b div 16), hexdigit (unat b mod 16)]) bs)"

subsection \<open>Repository options and content addresses\<close>

record NewRepositoryOptions =
  MaxBlockSize :: nat
  Splitter :: string
  BlockFormat :: string
  ObjectHMACSecret :: bytes
  noHMAC :: bool
  MetadataEncryptionAlgorithm :: string
  MaxPackedContentLength :: int

text \<open>
  Modelled from the spec: the block formats are not among the sources; this is the table of
  the spec's section 3. The content address of a payload: lowercase hex of MD5 for \<open>TESTONLY_MD5\<close> (which needs
  \<open>noHMAC\<close>), of HMAC-SHA256 under the object secret for \<open>UNENCRYPTED_HMAC_SHA256\<close> (64 hex
  digits) and its first 32 hex digits for \<open>UNENCRYPTED_HMAC_SHA256_128\<close>; the HMAC formats
  need a secret and exclude \<open>noHMAC\<close>. \<open>hmac\<close> is HMAC-SHA256, a parameter.
\<close>

definition contentAddress ::
    "(bytes \<Rightarrow> bytes \<Rightarrow> bytes) \<Rightarrow> NewRepositoryOptions \<Rightarrow> bytes \<Rightarrow> error + string" where
  "contentAddress hmac opt payload =
     (if BlockFormat opt = ''TESTONLY_MD5'' then
        (if noHMAC opt then Inr (hex_EncodeToString (md5_Sum payload))
         else Inl (ConfigurationError ''TESTONLY_MD5 requires noHMAC''))
      else if BlockFormat opt = ''UNENCRYPTED_HMAC_SHA256''
              \<or> BlockFormat opt = ''UNENCRYPTED_HMAC_SHA256_128'' then
        (if noHMAC opt then Inl (ConfigurationError ''non-test hash with noHMAC'')
         else if ObjectHMACSecret opt = [] then Inl (ConfigurationError ''HMAC format without secret'')
         else if BlockFormat opt = ''UNENCRYPTED_HMAC_SHA256''
           then Inr (hex_EncodeToString (hmac (ObjectHMACSecret opt) payload))
           else Inr (take 32 (hex_EncodeToString (hmac (ObjectHMACSecret opt) payload))))
      else Inl (InvalidArgument ''unknown block format''))"

subsection \<open>Block manager\<close>

text \<open>
  Modelled from the spec: the block manager's state is not among the sources; this follows
  the spec's section 4.4. The in-memory index maps a content address to the pack file that holds the block and the
  slice of it, or to a tombstone. The current pack group of a prefix holds the buffer of the
  accepted blocks, the slice of each, and the running total length.
\<close>

record indexEntry =
  packBlockID :: string
  offset :: nat
  len :: nat
  deleted :: bool

record packGroup =
  packBuffer :: bytes
  packItems :: "(string \<times> nat \<times> nat) list"
  totalLength :: nat

record BlockManager =
  bmStorage :: storage
  bmIndex :: "string \<rightharpoonup> indexEntry"
  bmGroups :: "(string \<times> packGroup) list"

definition emptyGroup :: packGroup where
  "emptyGroup = \<lparr>packBuffer = [], packItems = [], totalLength = 0\<rparr>"

definition groupOf :: "BlockManager \<Rightarrow> string \<Rightarrow> packGroup" where
  "groupOf bm prefix = (case map_of (bmGroups bm) prefix of None \<Rightarrow> emptyGroup | Some g \<Rightarrow> g)"

text \<open>The slice of a block accepted into a current pack group and not yet sealed, if any.\<close>

fun pendingBlock :: "(string \<times> packGroup) list \<Rightarrow> string \<Rightarrow> bytes option" where
  "pendingBlock [] blockID = None"
| "pendingBlock ((prefix, g) # gs) blockID =
     (case map_of (packItems g) blockID of
        Some (off, n) \<Rightarrow> Some (take n (drop off (packBuffer g)))
      | None \<Rightarrow> pendingBlock gs blockID)"

text \<open>
  Modelled from the spec: \<open>GetBlock\<close> of the block manager is not among the sources (spec,
  sections 2, 4.3 and 4.4). A block of a current pack group is served from the buffer;
  an indexed block is the slice of its pack file, a tombstone making it absent; any other
  block is keyed directly by its ID. Errors of the storage surface unchanged.
\<close>

definition Blocks_GetBlock :: "BlockManager \<Rightarrow> string \<Rightarrow> error + bytes" where
  "Blocks_GetBlock bm blockID =
     (case pendingBlock (bmGroups bm) blockID of
        Some payload \<Rightarrow> Inr payload
      | None \<Rightarrow>
          (case bmIndex bm blockID of
             Some e \<Rightarrow>
               if deleted e then Inl ErrBlockNotFound
               else (case GetBlock (bmStorage bm) (packBlockID e) of
                       Inl err \<Rightarrow> Inl err
                     | Inr pack \<Rightarrow>
                         if offset e + len e \<le> length pack
                         then Inr (take (len e) (drop (offset e) pack))
                         else Inl (Malformed ''pack slice out of range''))
           | None \<Rightarrow>
               (case GetBlock (bmStorage bm) blockID of
                  Inl err \<Rightarrow> Inl err
                | Inr payload \<Rightarrow> Inr payload)))"

definition knownLive :: "BlockManager \<Rightarrow> string \<Rightarrow> bool" where
  "knownLive bm blockID =
     (case pendingBlock (bmGroups bm) blockID of
        Some payload \<Rightarrow> True
      | None \<Rightarrow> (case bmIndex bm blockID of Some e \<Rightarrow> \<not> deleted e | None \<Rightarrow> False))"

text \<open>
  Modelled from the spec: \<open>WriteBlock\<close> of the block manager is not among the sources (spec,
  section 4.4; sealing a pack group and \<open>Flush\<close> are not modelled). \<open>WriteBlock(prefix, data)\<close>:
  the ID is the prefix followed by the content address. A block
  already known live is not written again. With \<open>MaxPackedContentLength \<ge> 0\<close> a block no
  longer than it joins the current pack group of its prefix; any other block is stored
  standalone under its ID.
\<close>

definition Blocks_WriteBlock ::
    "(bytes \<Rightarrow> bytes \<Rightarrow> bytes) \<Rightarrow> NewRepositoryOptions \<Rightarrow> BlockManager \<Rightarrow> string \<Rightarrow> bytes
       \<Rightarrow> error + string \<times> BlockManager" where
  "Blocks_WriteBlock hmac opt bm prefix payload =
     (case contentAddress hmac opt payload of
        Inl err \<Rightarrow> Inl err
      | Inr addr \<Rightarrow>
          (let blockID = prefix @ addr
           in if knownLive bm blockID then Inr (blockID, bm)
              else if 0 \<le> MaxPackedContentLength opt
                      \<and> int (length payload) \<le> MaxPackedContentLength opt
              then (let g = groupOf bm prefix;
                        g' = \<lparr>packBuffer = packBuffer g @ payload,
                              packItems = (blockID, length (packBuffer g), length payload)
                                            # packItems g,
                              totalLength = totalLength g + length payload\<rparr>
                    in Inr (blockID, bm\<lparr>bmGroups := AList.update prefix g' (bmGroups bm)\<rparr>))
              else Inr (blockID, bm\<lparr>bmStorage := PutBlock (bmStorage bm) blockID payload\<rparr>)))"

subsection \<open>Object IDs, splitter and object writer\<close>

datatype ObjectID = Direct string | Indirect ObjectID

record indirectObjectEntry =
  Start :: nat
  Length :: nat
  Object :: ObjectID

text \<open>
  Modelled from the spec: the splitter is not among the sources (spec, section 4.1). The
  \<open>FIXED\<close> splitter counts the bytes since the last cut and cuts every \<open>MaxBlockSize\<close>
  bytes. \<open>ShouldSplit\<close> takes the count and gives whether the position after one more byte is
  a cut-point, with the new count.
\<close>

definition newSplitter :: "NewRepositoryOptions \<Rightarrow> error + nat" where
  "newSplitter opt =
     (if Splitter opt = ''FIXED'' then Inr 0 else Inl (InvalidArgument ''unknown splitter''))"

definition ShouldSplit :: "NewRepositoryOptions \<Rightarrow> nat \<Rightarrow> bool \<times> nat" where
  "ShouldSplit opt cur = (if MaxBlockSize opt \<le> cur + 1 then (True, 0) else (False, cur + 1))"

record objectWriter =
  buffer :: bytes
  splitter :: nat
  blockIndex :: "indirectObjectEntry list"
  currentPosition :: nat
  resultCalled :: bool

definition NewWriter :: "NewRepositoryOptions \<Rightarrow> error + objectWriter" where
  "NewWriter opt =
     (case newSplitter opt of
        Inl err \<Rightarrow> Inl err
      | Inr s \<Rightarrow> Inr \<lparr>buffer = [], splitter = s, blockIndex = [], currentPosition = 0,
                      resultCalled = False\<rparr>)"

text \<open>
  Modelled from the spec: the object writer is not among the sources (spec, section 4.2).
  At a chunk boundary the writer hands the buffer to \<open>WriteBlock\<close> with the empty prefix and
  records (offset, length, direct content address) in its entry list.
\<close>

definition flushBuffer ::
    "(bytes \<Rightarrow> bytes \<Rightarrow> bytes) \<Rightarrow> NewRepositoryOptions \<Rightarrow> BlockManager \<Rightarrow> objectWriter
       \<Rightarrow> error + BlockManager \<times> objectWriter" where
  "flushBuffer hmac opt bm w =
     (case Blocks_WriteBlock hmac opt bm [] (buffer w) of
        Inl err \<Rightarrow> Inl err
      | Inr (addr, bm') \<Rightarrow>
          Inr (bm', w\<lparr>blockIndex := blockIndex w @
                         [\<lparr>Start = currentPosition w, Length = length (buffer w),
                           Object = Direct addr\<rparr>],
                       currentPosition := currentPosition w + length (buffer w),
                       buffer := []\<rparr>))"

text \<open>
  One byte of input: it joins the buffer, the splitter is asked, and a chunk is emitted when
  the splitter reports a cut or the chunk has reached \<open>MaxBlockSize\<close>.
\<close>

definition writeByte ::
    "(bytes \<Rightarrow> bytes \<Rightarrow> bytes) \<Rightarrow> NewRepositoryOptions \<Rightarrow> BlockManager \<Rightarrow> objectWriter \<Rightarrow> byte
       \<Rightarrow> error + BlockManager \<times> objectWriter" where
  "writeByte hmac opt bm w b =
     (case ShouldSplit opt (splitter w) of
        (atCut, s) \<Rightarrow>
          (let w1 = w\<lparr>buffer := buffer w @ [b], splitter := s\<rparr>
           in if atCut \<or> MaxBlockSize opt \<le> length (buffer w1)
              then flushBuffer hmac opt bm w1
              else Inr (bm, w1)))"

fun writeBytes ::
    "(bytes \<Rightarrow> bytes \<Rightarrow> bytes) \<Rightarrow> NewRepositoryOptions \<Rightarrow> BlockManager \<Rightarrow> objectWriter \<Rightarrow> bytes
       \<Rightarrow> error + BlockManager \<times> objectWriter" where
  "writeBytes hmac opt bm w [] = Inr (bm, w)"
| "writeBytes hmac opt bm w (b # bs) =
     (case writeByte hmac opt bm w b of
        Inl err \<Rightarrow> Inl err
      | Inr (bm', w') \<Rightarrow> writeBytes hmac opt bm' w' bs)"

text \<open>\<open>Write(bytes)\<close> gives the number of bytes taken; after \<open>Result\<close> it is an error.\<close>

definition Writer_Write ::
    "(bytes \<Rightarrow> bytes \<Rightarrow> bytes) \<Rightarrow> NewRepositoryOptions \<Rightarrow> BlockManager \<Rightarrow> objectWriter \<Rightarrow> bytes
       \<Rightarrow> error + nat \<times> BlockManager \<times> objectWriter" where
  "Writer_Write hmac opt bm w bs =
     (if resultCalled w then Inl (InvalidArgument ''write after result'')
      else (case writeBytes hmac opt bm w bs of
              Inl err \<Rightarrow> Inl err
            | Inr (bm', w') \<Rightarrow> Inr (length bs, bm', w')))"

text \<open>
  Modelled from the spec: \<open>Result\<close> of the object writer is not among the sources (spec,
  sections 4.1 and 4.2). The trailing bytes form a final chunk (an object without any chunk yet gets the
  chunk of its empty buffer). With exactly one entry the result is its direct ID. Otherwise
  the entry list is serialised (\<open>marshal\<close>, JSON, a parameter), written as a new object by a
  nested writer, and the result is the indirect ID of that object. The nesting repeats while
  the index itself takes more than one chunk; a nesting that never ends is the value \<open>None\<close>.
\<close>

partial_function (option) Writer_Result ::
    "(bytes \<Rightarrow> bytes \<Rightarrow> bytes) \<Rightarrow> (indirectObjectEntry list \<Rightarrow> bytes) \<Rightarrow> NewRepositoryOptions
       \<Rightarrow> BlockManager \<Rightarrow> objectWriter
       \<Rightarrow> (error + ObjectID \<times> BlockManager \<times> objectWriter) option" where
  "Writer_Result hmac marshal opt bm w =
     (case (if buffer w \<noteq> [] \<or> blockIndex w = [] then flushBuffer hmac opt bm w
            else Inr (bm, w)) of
        Inl err \<Rightarrow> Some (Inl err)
      | Inr (bm1, w1) \<Rightarrow>
          (if length (blockIndex w1) = 1
           then Some (Inr (Object (hd (blockIndex w1)), bm1, w1\<lparr>resultCalled := True\<rparr>))
           else (case NewWriter opt of
                   Inl err \<Rightarrow> Some (Inl err)
                 | Inr iw \<Rightarrow>
                     (case writeBytes hmac opt bm1 iw (marshal (blockIndex w1)) of
                        Inl err \<Rightarrow> Some (Inl err)
                      | Inr (bm2, iw2) \<Rightarrow>
                          Option.bind (Writer_Result hmac marshal opt bm2 iw2)
                            (\<lambda>inner. case inner of
                                 Inl err \<Rightarrow> Some (Inl err)
                               | Inr (innerID, bm3, iw3) \<Rightarrow>
                                   Some (Inr (Indirect innerID, bm3,
                                              w1\<lparr>resultCalled := True\<rparr>)))))))"

subsection \<open>Object reader\<close>

text \<open>
  Modelled from the spec: \<open>Open\<close> of the object layer is not among the sources (spec, section
  4.3). \<open>Open\<close> gives a reader over the logical content, positioned at its start. For a direct ID
  the reader holds the single block; a block absent from storage surfaces the storage's
  error unchanged, and a payload that does not match the declared content address is
  malformed data. For an indirect ID the inner object is opened and read in full, its entry
  list parsed (\<open>unmarshal\<close>, JSON, a parameter) and sorted by start; entries that are not
  strictly ordered and contiguous are malformed.
\<close>

datatype objectReader =
    directReader bytes nat
  | indirectReader "indirectObjectEntry list" nat

fun contiguous :: "indirectObjectEntry list \<Rightarrow> bool" where
  "contiguous (e1 # e2 # es) =
     (Start e1 < Start e2 \<and> Start e1 + Length e1 = Start e2 \<and> contiguous (e2 # es))"
| "contiguous _ = True"

definition verifyBlock ::
    "(bytes \<Rightarrow> bytes \<Rightarrow> bytes) \<Rightarrow> NewRepositoryOptions \<Rightarrow> string \<Rightarrow> bytes \<Rightarrow> error option" where
  "verifyBlock hmac opt blockID payload =
     (case contentAddress hmac opt payload of
        Inl err \<Rightarrow> Some err
      | Inr addr \<Rightarrow> if addr = blockID then None
                    else Some (Malformed ''payload does not match the content address''))"

text \<open>The whole content behind a reader of a direct object, as the reading of an index needs it.\<close>

fun readDirect :: "objectReader \<Rightarrow> error + bytes" where
  "readDirect (directReader payload pos) = Inr payload"
| "readDirect (indirectReader es pos) = Inl (Malformed ''nested index'')"

fun Objects_Open ::
    "(bytes \<Rightarrow> bytes \<Rightarrow> bytes) \<Rightarrow> (bytes \<Rightarrow> indirectObjectEntry list option)
       \<Rightarrow> NewRepositoryOptions \<Rightarrow> BlockManager \<Rightarrow> ObjectID \<Rightarrow> error + objectReader" where
  "Objects_Open hmac unmarshal opt bm (Direct blockID) =
     (case Blocks_GetBlock bm blockID of
        Inl err \<Rightarrow> Inl err
      | Inr payload \<Rightarrow>
          (case verifyBlock hmac opt blockID payload of
             Some err \<Rightarrow> Inl err
           | None \<Rightarrow> Inr (directReader payload 0)))"
| "Objects_Open hmac unmarshal opt bm (Indirect inner) =
     (case Objects_Open hmac unmarshal opt bm inner of
        Inl err \<Rightarrow> Inl err
      | Inr rd \<Rightarrow>
          (case readDirect rd of
             Inl err \<Rightarrow> Inl err
           | Inr j \<Rightarrow>
               (case unmarshal j of
                  None \<Rightarrow> Inl (Malformed ''cannot parse the entry list'')
                | Some es \<Rightarrow>
                    (let sorted_es = sort_key Start es
                     in if contiguous sorted_es then Inr (indirectReader sorted_es 0)
                        else Inl (Malformed ''gap or overlap in the entry list'')))))"

subsection \<open>The test setup\<close>

text \<open>The options of \<open>setupTest\<close> in the repository's test file.\<close>

definition testOptions :: NewRepositoryOptions where
  "testOptions =
     \<lparr>MaxBlockSize = 200, Splitter = ''FIXED'', BlockFormat = ''TESTONLY_MD5'',
      ObjectHMACSecret = [], noHMAC = True, MetadataEncryptionAlgorithm = ''NONE'',
      MaxPackedContentLength = -1\<rparr>"

definition newBlockManager :: "storage \<Rightarrow> BlockManager" where
  "newBlockManager st = \<lparr>bmStorage = st, bmIndex = Map.empty, bmGroups = []\<rparr>"


text \<open>The block an object ID leads to first: the block of its innermost direct ID.\<close>

fun rootBlock :: "ObjectID \<Rightarrow> string" where
  "rootBlock (Direct blockID) = blockID"
| "rootBlock (Indirect inner) = rootBlock inner"

text \<open>
  The test file's \<open>writeObject\<close>, with one \<open>Write\<close> call per element of a list: a new writer,
  the writes in order, then \<open>Result\<close>. \<open>resultID\<close> is the object ID of a successful result.
\<close>

fun writeAll ::
    "(bytes \<Rightarrow> bytes \<Rightarrow> bytes) \<Rightarrow> NewRepositoryOptions \<Rightarrow> BlockManager \<Rightarrow> objectWriter
       \<Rightarrow> bytes list \<Rightarrow> error + BlockManager \<times> objectWriter" where
  "writeAll hmac opt bm w [] = Inr (bm, w)"
| "writeAll hmac opt bm w (d # ds) =
     (case Writer_Write hmac opt bm w d of
        Inl err \<Rightarrow> Inl err
      | Inr (n, bm', w') \<Rightarrow> writeAll hmac opt bm' w' ds)"

definition writeObject ::
    "(bytes \<Rightarrow> bytes \<Rightarrow> bytes) \<Rightarrow> (indirectObjectEntry list \<Rightarrow> bytes) \<Rightarrow> NewRepositoryOptions
       \<Rightarrow> BlockManager \<Rightarrow> bytes list \<Rightarrow> (error + ObjectID \<times> BlockManager) option" where
  "writeObject hmac marshal opt bm ds =
     (case NewWriter opt of
        Inl err \<Rightarrow> Some (Inl err)
      | Inr w \<Rightarrow>
          (case writeAll hmac opt bm w ds of
             Inl err \<Rightarrow> Some (Inl err)
           | Inr (bm', w') \<Rightarrow>
               Option.bind (Writer_Result hmac marshal opt bm' w')
                 (\<lambda>r. case r of
                      Inl err \<Rightarrow> Some (Inl err)
                    | Inr (oid, bm'', w'') \<Rightarrow> Some (Inr (oid, bm'')))))"

definition resultID :: "(error + ObjectID \<times> BlockManager) option \<Rightarrow> ObjectID option" where
  "resultID r = (case r of Some (Inr (oid, bm)) \<Rightarrow> Some oid | _ \<Rightarrow> None)"


section \<open>Properties of the metadata manager\<close>

subsection \<open>Building a manager\<close>

lemma NewManager_NONE:
  "EncryptionAlgorithm f = ''NONE'' \<Longrightarrow> NewManager lib st f = Inr mm \<Longrightarrow>
     aead mm = None \<and> cache mm = st"
  by (auto simp: NewManager_def initCrypto_def split: sum.splits)

lemma NewManager_GCM:
  "EncryptionAlgorithm f = ''AES256_GCM'' \<Longrightarrow> NewManager lib st f = Inr mm \<Longrightarrow>
     aead mm = Some \<lparr>NonceSize = 12, Overhead = 16,
                      Seal = gcm_Seal lib (DeriveKey lib purposeAESKey 32),
                      Open = gcm_Open lib (DeriveKey lib purposeAESKey 32)\<rparr>
     \<and> authData mm = DeriveKey lib purposeAuthData 32 \<and> cache mm = st"
  by (auto simp: NewManager_def initCrypto_def NewGCM_def Let_def gcmStandardNonceSize_def
        gcmTagSize_def split: sum.splits if_splits)

lemma NewManager_algorithms:
  "NewManager lib st f = Inr mm \<Longrightarrow>
     EncryptionAlgorithm f = ''AES256_GCM'' \<or> EncryptionAlgorithm f = ''NONE''"
  by (auto simp: NewManager_def initCrypto_def split: sum.splits if_splits)

lemma NewManager_gcmManager: "NewManager toyLibrary st gcmFormat = Inr (gcmManager st)"
  by (simp add: NewManager_def initCrypto_def gcmFormat_def toyLibrary_def NewGCM_def
        gcmManager_def gcmStandardNonceSize_def gcmTagSize_def)

lemma NewManager_plainManager: "NewManager toyLibrary emptyStorage plainFormat = Inr plainManager"
  by (simp add: NewManager_def initCrypto_def plainFormat_def plainManager_def)

lemma toyLibrary_opens:
  "gcm_Open toyLibrary key nonce (gcm_Seal toyLibrary key nonce p ad) ad = Some p"
  by (simp add: toyLibrary_def)

lemma toyLibrary_length:
  "length (gcm_Seal toyLibrary key nonce p ad) = length p + 16"
  by (simp add: toyLibrary_def)

lemma ReadFull_sevens: "ReadFull sevens 12 = Inr (replicate 12 7)"
  by (simp add: ReadFull_def sevens_def)

subsection \<open>MultiGet\<close>

lemma collect_no_error:
  "collect rs e m = (None, m') \<Longrightarrow> e = None \<and> (\<forall>r\<in>set rs. \<exists>c. snd r = Inr c)"
  by (induction rs e m rule: collect.induct) (auto split: if_splits)

text \<open>
  \<open>MultiGet\<close> hands back a map only when every single read succeeded: the receiving loop
  treats \<open>ErrNotFound\<close> like any other error.
\<close>

lemma MultiGet_map_only_if_all_found:
  "MultiGet sched mm itemIDs = Inr m \<Longrightarrow>
     \<forall>itemID\<in>set (sched itemIDs). \<exists>c. GetMetadata mm itemID = Inr c"
  by (auto simp: MultiGet_def split: prod.splits option.splits dest!: collect_no_error)

text \<open>
  C1. The comment of \<open>MultiGet\<close> and the claim say that an item absent from storage is left out
  of the returned map and is no error. On the code, asking for the single non-reserved item
  \<open>a\<close> of an empty storage returns the error \<open>ErrNotFound\<close> and no map.
\<close>

theorem MultiGet_absent_item_is_error:
  "MultiGet inOrder plainManager [''a''] = Inl ErrNotFound"
  by (simp add: MultiGet_def inOrder_def GetMetadata_def checkReservedName_def
        isReservedName_def readEncryptedBlock_def GetBlock_def plainManager_def
        emptyStorage_def)

subsection \<open>Reserved names\<close>

lemma isReservedName_iff: "isReservedName itemID \<longleftrightarrow> itemID = ''format'' \<or> itemID = ''repo''"
  by (simp add: isReservedName_def)

lemma Remove_cases:
  "Remove bf mm itemID =
     (if isReservedName itemID then (Some (InvalidItemName itemID), mm)
      else (case deleteFault bf itemID of
              Some err \<Rightarrow> (Some err, mm)
            | None \<Rightarrow> (None, mm\<lparr>cache := DeleteBlock (cache mm) itemID\<rparr>)))"
  by (simp add: Remove_def checkReservedName_def cache_DeleteBlock_def split: option.splits)

text \<open>
  One step of \<open>removeAll\<close>: the manager after the first \<open>Remove\<close>, and the error it sent to
  the error channel, if any.
\<close>

lemma removeAll_Cons:
  "removeAll bf mm (a # ids) =
     (case removeAll bf (snd (Remove bf mm a)) ids of
        (errch, mm') \<Rightarrow>
          (case fst (Remove bf mm a) of Some err \<Rightarrow> (err # errch, mm') | None \<Rightarrow> (errch, mm')))"
  by (cases "Remove bf mm a") (auto split: option.splits prod.splits)

lemma Remove_keeps_reserved:
  "isReservedName r \<Longrightarrow> blocks (cache (snd (Remove bf mm a))) r = blocks (cache mm) r"
  by (auto simp: Remove_cases DeleteBlock_def split: option.splits)

lemma removeAll_keeps_reserved:
  "isReservedName r \<Longrightarrow> removeAll bf mm ids = (errch, mm') \<Longrightarrow>
     blocks (cache mm') r = blocks (cache mm) r"
proof (induction ids arbitrary: mm errch mm')
  case Nil
  then show ?case by simp
next
  case (Cons a ids)
  obtain es m1 where rest: "removeAll bf (snd (Remove bf mm a)) ids = (es, m1)"
    by force
  with Cons.prems(2) have "m1 = mm'"
    by (auto simp: removeAll_Cons simp del: removeAll.simps split: option.splits)
  with Cons.IH[OF Cons.prems(1) rest] Remove_keeps_reserved[OF Cons.prems(1), of bf mm a]
  show ?case by simp
qed

text \<open>
  Every error of the error channel is the invalid-item-name error of a reserved name of the
  list or the storage's error for the delete of another item of the list.
\<close>

lemma removeAll_errors:
  "removeAll bf mm ids = (errch, mm') \<Longrightarrow> e \<in> set errch \<Longrightarrow>
     (\<exists>r. isReservedName r \<and> r \<in> set ids \<and> e = InvalidItemName r)
     \<or> (\<exists>other. \<not> isReservedName other \<and> other \<in> set ids \<and> deleteFault bf other = Some e)"
proof (induction ids arbitrary: mm errch mm')
  case Nil
  then show ?case by simp
next
  case (Cons a ids)
  obtain es m1 where rest: "removeAll bf (snd (Remove bf mm a)) ids = (es, m1)"
    by force
  show ?case
  proof (cases "e \<in> set es")
    case True
    from Cons.IH[OF rest True] show ?thesis by auto
  next
    case False
    with Cons.prems rest have "fst (Remove bf mm a) = Some e"
      by (auto simp: removeAll_Cons simp del: removeAll.simps split: option.splits)
    then show ?thesis
      by (auto simp: Remove_cases split: if_splits option.splits)
  qed
qed

lemma removeAll_reports_reserved:
  "isReservedName r \<Longrightarrow> r \<in> set ids \<Longrightarrow> removeAll bf mm ids = (errch, mm') \<Longrightarrow> errch \<noteq> []"
proof (induction ids arbitrary: mm errch mm')
  case Nil
  then show ?case by simp
next
  case (Cons a ids)
  obtain es m1 where rest: "removeAll bf (snd (Remove bf mm a)) ids = (es, m1)"
    by force
  show ?case
  proof (cases "a = r")
    case True
    with Cons.prems rest show ?thesis
      by (auto simp: removeAll_Cons Remove_cases simp del: removeAll.simps)
  next
    case False
    with Cons.prems have "r \<in> set ids" by simp
    from Cons.IH[OF Cons.prems(1) this rest] Cons.prems(3) rest show ?thesis
      by (auto simp: removeAll_Cons simp del: removeAll.simps split: option.splits)
  qed
qed

text \<open>
  With no failing delete, the errors of the error channel are the invalid-item-name errors of
  the reserved names of the list, in the order of the schedule.
\<close>

lemma removeAll_no_faults:
  "\<forall>other\<in>set ids. deleteFault bf other = None \<Longrightarrow>
     fst (removeAll bf mm ids) = map InvalidItemName (filter isReservedName ids)"
proof (induction ids arbitrary: mm)
  case Nil
  then show ?case by simp
next
  case (Cons a ids)
  obtain es m1 where rest: "removeAll bf (snd (Remove bf mm a)) ids = (es, m1)"
    by force
  from Cons.prems have "\<forall>other\<in>set ids. deleteFault bf other = None" by simp
  from Cons.IH[OF this, of "snd (Remove bf mm a)"] rest
  have "es = map InvalidItemName (filter isReservedName ids)" by simp
  with rest Cons.prems show ?case
    by (simp add: removeAll_Cons Remove_cases del: removeAll.simps)
qed

text \<open>
  The storage's error can come first: with a backend that fails every delete, \<open>RemoveMany\<close> of
  \<open>a\<close> and \<open>repo\<close> in this order returns the storage's error for \<open>a\<close>.
\<close>

lemma RemoveMany_storage_error_first:
  "fst (RemoveMany inOrder faultyBackend plainManager [''a'', ''repo''])
     = Some (StorageFailure ''read-only'')"
  by (simp add: RemoveMany_def inOrder_def Remove_cases isReservedName_iff faultyBackend_def
        split: prod.splits)

text \<open>
  C2, as the code has it. \<open>Put\<close>, \<open>GetMetadata\<close> and \<open>Remove\<close> answer a reserved name, \<open>format\<close>
  or \<open>repo\<close>, with the invalid-item-name error and leave the manager as it was. \<open>RemoveMany\<close>
  over a list that holds a reserved name returns an error and leaves the block stored under
  the reserved name untouched, whatever the order in which the workers run; the error is the
  invalid-item-name error of a reserved name of the list or the storage's error for the delete
  of another item of the list, and it is the former when no delete of the list fails.
  \<open>GetJSON\<close> and \<open>PutJSON\<close> make no reserved-name check: under a reserved name \<open>GetJSON\<close>
  answers \<open>ErrNotFound\<close> when the storage reports the block absent and, without encryption,
  parses the stored block; \<open>PutJSON\<close>, without encryption and with a storage that takes the
  write, stores the serialised content and returns no error.
\<close>

theorem reserved_name_rejected:
  assumes "itemID = ''format'' \<or> itemID = ''repo''"
  shows "Put rd bf mm itemID content = (Some (InvalidItemName itemID), mm)
       \<and> GetMetadata mm itemID = Inl (InvalidItemName itemID)
       \<and> Remove bf mm itemID = (Some (InvalidItemName itemID), mm)
       \<and> (itemID \<in> set (sched itemIDs) \<longrightarrow>
            (\<exists>e. fst (RemoveMany sched bf mm itemIDs) = Some e
                  \<and> ((\<exists>r. (r = ''format'' \<or> r = ''repo'') \<and> r \<in> set (sched itemIDs)
                            \<and> e = InvalidItemName r)
                     \<or> (\<exists>other. other \<noteq> ''format'' \<and> other \<noteq> ''repo''
                            \<and> other \<in> set (sched itemIDs) \<and> deleteFault bf other = Some e)))
            \<and> blocks (cache (snd (RemoveMany sched bf mm itemIDs))) itemID
                = blocks (cache mm) itemID)
       \<and> (itemID \<in> set (sched itemIDs)
            \<and> (\<forall>other\<in>set (sched itemIDs). deleteFault bf other = None) \<longrightarrow>
            (\<exists>r. (r = ''format'' \<or> r = ''repo'') \<and> r \<in> set (sched itemIDs)
                  \<and> fst (RemoveMany sched bf mm itemIDs) = Some (InvalidItemName r)))
       \<and> (GetBlock (cache mm) itemID = Inl ErrBlockNotFound \<longrightarrow>
            GetJSON unmarshal mm itemID = Inl ErrNotFound)
       \<and> (aead mm = None \<and> GetBlock (cache mm) itemID = Inr blob \<longrightarrow>
            GetJSON unmarshal mm itemID = unmarshal blob)
       \<and> (aead mm = None \<and> marshal v = Inr j \<and> putFault bf itemID = None \<longrightarrow>
            PutJSON marshal rd bf mm itemID v
              = (None, mm\<lparr>cache := PutBlock (cache mm) itemID j\<rparr>))"
proof -
  from assms have r: "isReservedName itemID" by (simp add: isReservedName_iff)
  have 1: "Put rd bf mm itemID content = (Some (InvalidItemName itemID), mm)"
    using r by (simp add: Put_def checkReservedName_def)
  have 2: "GetMetadata mm itemID = Inl (InvalidItemName itemID)"
    using r by (simp add: GetMetadata_def checkReservedName_def)
  have 3: "Remove bf mm itemID = (Some (InvalidItemName itemID), mm)"
    using r by (simp add: Remove_cases)
  obtain errch mm' where ra: "removeAll bf mm (sched itemIDs) = (errch, mm')" by force
  have 4: "(\<exists>e. fst (RemoveMany sched bf mm itemIDs) = Some e
                  \<and> ((\<exists>r. (r = ''format'' \<or> r = ''repo'') \<and> r \<in> set (sched itemIDs)
                            \<and> e = InvalidItemName r)
                     \<or> (\<exists>other. other \<noteq> ''format'' \<and> other \<noteq> ''repo''
                            \<and> other \<in> set (sched itemIDs) \<and> deleteFault bf other = Some e)))
            \<and> blocks (cache (snd (RemoveMany sched bf mm itemIDs))) itemID
                = blocks (cache mm) itemID"
    if mem: "itemID \<in> set (sched itemIDs)"
  proof -
    from removeAll_reports_reserved[OF r mem ra] obtain e es where es: "errch = e # es"
      by (cases errch) auto
    have res: "fst (RemoveMany sched bf mm itemIDs) = Some e"
      and st: "snd (RemoveMany sched bf mm itemIDs) = mm'"
      using ra es by (simp_all add: RemoveMany_def)
    from removeAll_errors[OF ra, of e] es
    have "(\<exists>r. (r = ''format'' \<or> r = ''repo'') \<and> r \<in> set (sched itemIDs)
                \<and> e = InvalidItemName r)
          \<or> (\<exists>other. other \<noteq> ''format'' \<and> other \<noteq> ''repo''
                \<and> other \<in> set (sched itemIDs) \<and> deleteFault bf other = Some e)"
      by (auto simp: isReservedName_iff)
    moreover from removeAll_keeps_reserved[OF r ra]
    have "blocks (cache mm') itemID = blocks (cache mm) itemID" .
    ultimately show ?thesis
      using res st by simp
  qed
  have 5: "\<exists>r. (r = ''format'' \<or> r = ''repo'') \<and> r \<in> set (sched itemIDs)
                  \<and> fst (RemoveMany sched bf mm itemIDs) = Some (InvalidItemName r)"
    if mem: "itemID \<in> set (sched itemIDs)"
      and nf: "\<forall>other\<in>set (sched itemIDs). deleteFault bf other = None"
  proof -
    from removeAll_no_faults[OF nf, of mm] ra
    have errs: "errch = map InvalidItemName (filter isReservedName (sched itemIDs))" by simp
    from mem r have "filter isReservedName (sched itemIDs) \<noteq> []"
      by (auto simp: filter_empty_conv)
    then obtain r' rs where f: "filter isReservedName (sched itemIDs) = r' # rs"
      by (cases "filter isReservedName (sched itemIDs)") auto
    then have "r' \<in> set (filter isReservedName (sched itemIDs))" by simp
    then have "isReservedName r'" "r' \<in> set (sched itemIDs)" by simp_all
    moreover from ra errs f
    have "fst (RemoveMany sched bf mm itemIDs) = Some (InvalidItemName r')"
      by (simp add: RemoveMany_def)
    ultimately show ?thesis by (auto simp: isReservedName_iff)
  qed
  have 6: "GetJSON unmarshal mm itemID = Inl ErrNotFound"
    if "GetBlock (cache mm) itemID = Inl ErrBlockNotFound"
    using that by (simp add: GetJSON_def readEncryptedBlock_def)
  have 7: "GetJSON unmarshal mm itemID = unmarshal blob"
    if "aead mm = None \<and> GetBlock (cache mm) itemID = Inr blob"
    using that by (simp add: GetJSON_def readEncryptedBlock_def decryptBlock_def)
  have 8: "PutJSON marshal rd bf mm itemID v = (None, mm\<lparr>cache := PutBlock (cache mm) itemID j\<rparr>)"
    if "aead mm = None \<and> marshal v = Inr j \<and> putFault bf itemID = None"
    using that by (simp add: PutJSON_def writeEncryptedBlock_def cache_PutBlock_def)
  from 1 2 3 4 5 6 7 8 show ?thesis by blast
qed

theorem reserved_name_rejected_witness:
  "Put sevens noFaults plainManager ''repo'' [1, 2, 3]
     = (Some (InvalidItemName ''repo''), plainManager)
   \<and> GetMetadata plainManager ''repo'' = Inl (InvalidItemName ''repo'')
   \<and> Remove noFaults plainManager ''repo'' = (Some (InvalidItemName ''repo''), plainManager)
   \<and> fst (RemoveMany inOrder noFaults plainManager [''a'', ''repo''])
       = Some (InvalidItemName ''repo'')
   \<and> GetJSON Inr plainManager ''repo'' = Inl ErrNotFound
   \<and> PutJSON Inr sevens noFaults plainManager ''repo'' [1, 2, 3]
       = (None, plainManager\<lparr>cache := PutBlock emptyStorage ''repo'' [1, 2, 3]\<rparr>)"
proof -
  have absent: "GetBlock (cache plainManager) ''repo'' = Inl ErrBlockNotFound"
    by (simp add: plainManager_def emptyStorage_def GetBlock_def)
  have plain: "aead plainManager = None" "cache plainManager = emptyStorage"
    by (simp_all add: plainManager_def)
  have nf: "putFault noFaults ''repo'' = None" "\<And>other. deleteFault noFaults other = None"
    by (simp_all add: noFaults_def)
  have mem: "''repo'' \<in> set (inOrder [''a'', ''repo''])"
    by (simp add: inOrder_def)
  have only: "r \<in> set (inOrder [''a'', ''repo'']) \<Longrightarrow> r = ''format'' \<or> r = ''repo'' \<Longrightarrow> r = ''repo''"
    for r
    by (auto simp: inOrder_def)
  from reserved_name_rejected[where itemID="''repo''" and rd=sevens and bf=noFaults
         and mm=plainManager and content="[1, 2, 3]" and sched=inOrder
         and itemIDs="[''a'', ''repo'']" and unmarshal=Inr and marshal=Inr
         and v="[1, 2, 3]" and j="[1, 2, 3]" and blob="[]"]
  show ?thesis
    using absent plain nf mem only by auto
qed

text \<open>
  The claim as stated fails for \<open>PutJSON\<close> and \<open>GetJSON\<close>, which make no reserved-name check:
  on a manager without encryption over an empty storage, \<open>PutJSON\<close> of the reserved name
  \<open>repo\<close> returns no error and stores the block, and \<open>GetJSON\<close> of the reserved name \<open>format\<close>
  answers \<open>ErrNotFound\<close>, not the invalid-item-name error.
\<close>

theorem PutJSON_reserved_name_counterexample:
  "fst (PutJSON Inr sevens noFaults plainManager ''repo'' [1, 2, 3]) = None
   \<and> GetBlock (cache plainManager) ''repo'' = Inl ErrBlockNotFound
   \<and> GetBlock (cache (snd (PutJSON Inr sevens noFaults plainManager ''repo'' [1, 2, 3]))) ''repo''
       = Inr [1, 2, 3]
   \<and> GetJSON Inr plainManager ''format'' = Inl ErrNotFound"
  by (simp add: PutJSON_def GetJSON_def readEncryptedBlock_def writeEncryptedBlock_def
        cache_PutBlock_def noFaults_def plainManager_def emptyStorage_def GetBlock_def
        PutBlock_def)

subsection \<open>Writing and reading back\<close>

text \<open>
  \<open>Put\<close> returns the storage's error of a failed write, and stores nothing.
\<close>

lemma Put_storage_error:
  "Put noEntropy faultyBackend plainManager ''policy'' [1, 2, 3]
     = (Some (StorageFailure ''disk full''), plainManager)"
  by (simp add: Put_def checkReservedName_def isReservedName_def writeEncryptedBlock_def
        cache_PutBlock_def faultyBackend_def plainManager_def)

text \<open>
  C3. A manager built by \<open>NewManager\<close> uses AES256_GCM or NONE. For a name that is not
  reserved and any content, \<open>Put\<close> succeeds and \<open>GetMetadata\<close> then returns the same bytes.
  Under AES256_GCM the block handed to storage is the 12-byte nonce followed by what AES-GCM
  seals from (nonce, content, authData), authData being the key derived for the purpose
  \<open>CHECKSUM\<close>; under NONE it is the content itself. The library is assumed to meet the AEAD
  contract (opening what was sealed gives the plaintext back; sealing adds the 16-byte tag),
  the random source to deliver the nonce where one is drawn (under AES256_GCM), and the
  storage to take the write of the item and to read it without fault.
\<close>

theorem Put_GetMetadata_roundtrip:
  assumes nm: "NewManager lib st f = Inr mm"
    and name: "itemID \<noteq> ''format''" "itemID \<noteq> ''repo''"
    and gcm_open: "\<And>key nonce p ad. length nonce = 12 \<Longrightarrow>
                     gcm_Open lib key nonce (gcm_Seal lib key nonce p ad) ad = Some p"
    and gcm_len: "\<And>key nonce p ad. length nonce = 12 \<Longrightarrow>
                     length (gcm_Seal lib key nonce p ad) = length p + 16"
    and rnd: "EncryptionAlgorithm f = ''AES256_GCM'' \<Longrightarrow> ReadFull rd 12 = Inr nonce"
    and write_ok: "putFault bf itemID = None"
    and read_ok: "faults st itemID = None"
  shows "(EncryptionAlgorithm f = ''AES256_GCM'' \<or> EncryptionAlgorithm f = ''NONE'') \<and>
         (\<exists>mm'. Put rd bf mm itemID content = (None, mm') \<and>
            GetMetadata mm' itemID = Inr content \<and>
            (EncryptionAlgorithm f = ''AES256_GCM'' \<longrightarrow> length nonce = 12) \<and>
            blocks (cache mm') itemID =
              Some (if EncryptionAlgorithm f = ''AES256_GCM''
                    then nonce @ gcm_Seal lib (DeriveKey lib purposeAESKey 32) nonce content
                                   (DeriveKey lib purposeAuthData 32)
                    else content))"
proof -
  note alg = NewManager_algorithms[OF nm]
  have nr: "checkReservedName itemID = None"
    using name by (simp add: checkReservedName_def isReservedName_def)
  show ?thesis
  proof (cases "EncryptionAlgorithm f = ''NONE''")
    case True
    from NewManager_NONE[OF True nm] have mm: "aead mm = None" "cache mm = st" by simp_all
    show ?thesis
      using True mm nr write_ok read_ok
      by (simp add: Put_def writeEncryptedBlock_def cache_PutBlock_def GetMetadata_def
            readEncryptedBlock_def decryptBlock_def GetBlock_def PutBlock_def)
  next
    case False
    with alg have gcm: "EncryptionAlgorithm f = ''AES256_GCM''" by simp
    note rd = rnd[OF gcm]
    have len: "length nonce = 12"
      using rd by (auto simp: ReadFull_def split: sum.splits if_splits)
    note mm = NewManager_GCM[OF gcm nm]
    show ?thesis
      using gcm mm nr write_ok read_ok len rd gcm_open[OF len] gcm_len[OF len]
      by (simp add: Put_def writeEncryptedBlock_def cache_PutBlock_def GetMetadata_def
            readEncryptedBlock_def decryptBlock_def GetBlock_def PutBlock_def Let_def)
  qed
qed

theorem Put_GetMetadata_roundtrip_witness:
  "(\<exists>mm'. Put sevens noFaults (gcmManager emptyStorage) ''policy'' [1, 2, 3] = (None, mm') \<and>
      GetMetadata mm' ''policy'' = Inr [1, 2, 3] \<and>
      blocks (cache mm') ''policy'' = Some (replicate 12 7 @ [1, 2, 3] @ replicate 16 0))
   \<and> (\<exists>mm'. Put noEntropy noFaults plainManager ''policy'' [1, 2, 3] = (None, mm') \<and>
      GetMetadata mm' ''policy'' = Inr [1, 2, 3] \<and>
      blocks (cache mm') ''policy'' = Some [1, 2, 3])"
proof -
  have nf: "faults emptyStorage ''policy'' = None"
    by (simp add: emptyStorage_def)
  have wf: "putFault noFaults ''policy'' = None"
    by (simp add: noFaults_def)
  have sealed: "gcm_Seal toyLibrary k (replicate 12 7) [1, 2, 3] ad = [1, 2, 3] @ replicate 16 0"
    for k ad
    by (simp add: toyLibrary_def)
  have plain: "EncryptionAlgorithm plainFormat = ''AES256_GCM'' \<Longrightarrow> ReadFull noEntropy 12 = Inr []"
    by (simp add: plainFormat_def)
  show ?thesis
    using Put_GetMetadata_roundtrip[where itemID="''policy''" and content="[1, 2, 3]",
            OF NewManager_gcmManager _ _ toyLibrary_opens toyLibrary_length ReadFull_sevens wf nf]
          Put_GetMetadata_roundtrip[where itemID="''policy''" and content="[1, 2, 3]",
            OF NewManager_plainManager _ _ toyLibrary_opens toyLibrary_length plain wf nf]
    by (simp add: gcmFormat_def plainFormat_def sealed)
qed

subsection \<open>Blobs shorter than the nonce\<close>

text \<open>
  C10. Under AES256_GCM, reading a non-reserved item whose stored blob is shorter than the
  12-byte nonce ends in the slice-bounds panic of \<open>decryptBlock\<close>, not in an error of the
  manager.
\<close>

theorem decryptBlock_short_blob_panics:
  assumes "NewManager lib st f = Inr mm"
    and "EncryptionAlgorithm f = ''AES256_GCM''"
    and "itemID \<noteq> ''format''" and "itemID \<noteq> ''repo''"
    and "GetBlock (cache mm) itemID = Inr blob"
    and "length blob < 12"
  shows "GetMetadata mm itemID = Inl (PanicSliceBounds 12 (length blob))"
  using assms NewManager_GCM[OF assms(2) assms(1)]
  by (simp add: GetMetadata_def checkReservedName_def isReservedName_def
        readEncryptedBlock_def decryptBlock_def)

theorem decryptBlock_short_blob_panics_witness:
  "GetMetadata (gcmManager \<lparr>blocks = [''policy'' \<mapsto> [1, 2, 3]], faults = Map.empty\<rparr>) ''policy''
     = Inl (PanicSliceBounds 12 3)"
  using decryptBlock_short_blob_panics[where itemID="''policy''" and blob="[1, 2, 3]",
          OF NewManager_gcmManager]
  by (simp add: gcmFormat_def gcmManager_def GetBlock_def)

text \<open>
  In \<open>MultiGet\<close> the panic of a worker ends the call: nothing received after it replaces it.
\<close>

lemma MultiGet_panic_ends_call:
  "MultiGet inOrder (gcmManager \<lparr>blocks = [''policy'' \<mapsto> [1, 2, 3]], faults = Map.empty\<rparr>)
       [''policy'', ''absent''] = Inl (PanicSliceBounds 12 3)"
  by (simp add: MultiGet_def inOrder_def GetMetadata_def checkReservedName_def
        isReservedName_def readEncryptedBlock_def decryptBlock_def GetBlock_def gcmManager_def)

section \<open>Properties of the object layer\<close>

lemma Objects_Open_absent:
  "Blocks_GetBlock bm (rootBlock oid) = Inl ErrBlockNotFound \<Longrightarrow>
     Objects_Open hmac unmarshal opt bm oid = Inl ErrBlockNotFound"
  by (induction oid) simp_all

lemma Blocks_GetBlock_absent:
  "pendingBlock (bmGroups bm) b = None \<Longrightarrow> bmIndex bm b = None \<Longrightarrow>
     GetBlock (bmStorage bm) b = Inl ErrBlockNotFound \<Longrightarrow>
     Blocks_GetBlock bm b = Inl ErrBlockNotFound"
  by (simp add: Blocks_GetBlock_def)






lemma writeBytes_short:
  "length (buffer w) + length bs < MaxBlockSize opt \<Longrightarrow> splitter w = length (buffer w) \<Longrightarrow>
     writeBytes hmac opt bm w bs
       = Inr (bm, w\<lparr>buffer := buffer w @ bs, splitter := splitter w + length bs\<rparr>)"
proof (induction bs arbitrary: w)
  case Nil
  then show ?case by simp
next
  case (Cons b bs)
  let ?w1 = "w\<lparr>buffer := buffer w @ [b], splitter := splitter w + 1\<rparr>"
  from Cons.prems have 1: "writeByte hmac opt bm w b = Inr (bm, ?w1)"
    by (simp add: writeByte_def ShouldSplit_def)
  from Cons.prems have "writeBytes hmac opt bm ?w1 bs
       = Inr (bm, ?w1\<lparr>buffer := buffer ?w1 @ bs, splitter := splitter ?w1 + length bs\<rparr>)"
    by (intro Cons.IH) simp_all
  with 1 show ?case by simp
qed


lemma md5_fox: "hex_EncodeToString (md5_Sum (bytes_of ''the quick brown fox jumps over the lazy dog'')) = ''77add1d5f41223d5582fca736a5cb335''"
  by code_simp


lemma Blocks_WriteBlock_address:
  "contentAddress hmac opt p = Inr addr \<Longrightarrow>
     \<exists>bm'. Blocks_WriteBlock hmac opt bm prefix p = Inr (prefix @ addr, bm')"
  by (simp add: Blocks_WriteBlock_def Let_def)

lemma Writer_Result_single_chunk:
  assumes "blockIndex w = []" and "contentAddress hmac opt (buffer w) = Inr addr"
  shows "\<exists>bm' w'. Writer_Result hmac marshal opt bm w = Some (Inr (Direct addr, bm', w'))"
proof -
  from Blocks_WriteBlock_address[OF assms(2), of bm "[]"]
  obtain bm' where "Blocks_WriteBlock hmac opt bm [] (buffer w) = Inr (addr, bm')" by auto
  with assms(1) show ?thesis
    by (subst Writer_Result.simps) (simp add: flushBuffer_def)
qed

lemma writeObject_single_chunk:
  assumes "Splitter opt = ''FIXED''" and "length d < MaxBlockSize opt"
    and "contentAddress hmac opt d = Inr addr"
  shows "resultID (writeObject hmac marshal opt bm [d]) = Some (Direct addr)"
proof -
  let ?w0 = "\<lparr>buffer = [], splitter = 0, blockIndex = [], currentPosition = 0,
               resultCalled = False\<rparr>"
  have nw: "NewWriter opt = Inr ?w0"
    using assms(1) by (simp add: NewWriter_def newSplitter_def)
  have wb: "writeBytes hmac opt bm ?w0 d
              = Inr (bm, ?w0\<lparr>buffer := buffer ?w0 @ d, splitter := splitter ?w0 + length d\<rparr>)"
    using assms(2) by (intro writeBytes_short) simp_all
  from Writer_Result_single_chunk[of "?w0\<lparr>buffer := d, splitter := length d\<rparr>" hmac opt addr marshal bm]
    assms(3)
  obtain bm' w' where
    "Writer_Result hmac marshal opt bm (?w0\<lparr>buffer := d, splitter := length d\<rparr>)
       = Some (Inr (Direct addr, bm', w'))" by auto
  with nw wb show ?thesis
    by (simp add: writeObject_def Writer_Write_def resultID_def)
qed


lemma contentAddress_testOptions:
  "contentAddress hmac testOptions d = Inr (hex_EncodeToString (md5_Sum d))"
  by (simp add: contentAddress_def testOptions_def)

lemma writeObject_fox:
  "resultID (writeObject hmac marshal testOptions bm
       [bytes_of ''the quick brown fox jumps over the lazy dog''])
     = Some (Direct ''77add1d5f41223d5582fca736a5cb335'')"
proof -
  have "length (bytes_of ''the quick brown fox jumps over the lazy dog'') < MaxBlockSize testOptions"
    by (simp add: bytes_of_def testOptions_def)
  moreover have "Splitter testOptions = ''FIXED''"
    by (simp add: testOptions_def)
  ultimately show ?thesis
    using writeObject_single_chunk[OF _ _ contentAddress_testOptions] md5_fox
    by simp
qed

lemma Objects_Open_mismatch:
  "Blocks_GetBlock bm blockID = Inr payload \<Longrightarrow> contentAddress hmac opt payload = Inr addr \<Longrightarrow>
     addr \<noteq> blockID \<Longrightarrow>
     Objects_Open hmac unmarshal opt bm (Direct blockID)
       = Inl (Malformed ''payload does not match the content address'')"
  by (simp add: verifyBlock_def)

text \<open>
  C4. When the storage reports the block an object ID leads to as absent, \<open>Open\<close> of the object
  layer returns the storage's \<open>ErrBlockNotFound\<close> itself and no reader; when the storage
  reports a non-reserved metadata item as absent, \<open>GetMetadata\<close> returns the manager's own
  \<open>ErrNotFound\<close>.
\<close>

theorem absent_block_errors:
  assumes "pendingBlock (bmGroups bm) (rootBlock oid) = None"
    and "bmIndex bm (rootBlock oid) = None"
    and "GetBlock (bmStorage bm) (rootBlock oid) = Inl ErrBlockNotFound"
    and "itemID \<noteq> ''format''" and "itemID \<noteq> ''repo''"
    and "GetBlock (cache mm) itemID = Inl ErrBlockNotFound"
  shows "Objects_Open hmac unmarshal opt bm oid = Inl ErrBlockNotFound
       \<and> GetMetadata mm itemID = Inl ErrNotFound"
  using assms Objects_Open_absent[OF Blocks_GetBlock_absent, of bm oid hmac unmarshal opt]
  by (simp add: GetMetadata_def checkReservedName_def isReservedName_def readEncryptedBlock_def)

theorem absent_block_errors_witness:
  "Objects_Open (\<lambda>k d. []) (\<lambda>j. None) testOptions (newBlockManager emptyStorage)
       (Direct ''no-such-block'') = Inl ErrBlockNotFound
   \<and> GetMetadata plainManager ''no-such-item'' = Inl ErrNotFound"
  using absent_block_errors[of "newBlockManager emptyStorage" "Direct ''no-such-block''"
          "''no-such-item''" plainManager "\<lambda>k d. []" "\<lambda>j. None" testOptions]
  by (simp add: newBlockManager_def emptyStorage_def GetBlock_def plainManager_def)



end
